theory Spec2Isabelle
  imports
    Complex_Main
    "HOL-Library.Sublist"
    "HOL-Library.Char_ord"
    "HOL-Library.List_Lexorder"
    "HOL-Library.Multiset"
begin

section \<open>Python strings\<close>

text \<open>
  A Python \<open>str\<close> is modelled as a \<open>string\<close>: every \<open>char\<close> stands for one code
  point of the text, in the range U+0000 .. U+00FF. In that range the decimal digits
  of the regular expression class \<open>\d\<close> are exactly \<open>0 .. 9\<close>, \<open>str.lower\<close> maps
  \<open>A .. Z\<close> and the accented capitals U+00C0 .. U+00DE (without the multiplication
  sign U+00D7) to the letter 32 code points later, and \<open>str.strip\<close>/\<open>\s\<close> treat the
  characters listed in \<open>is_space\<close> as white space.
\<close>

definition is_digit :: "char \<Rightarrow> bool" where
  "is_digit c = (let n = (of_char c :: nat) in 48 \<le> n \<and> n \<le> 57)"

definition is_space :: "char \<Rightarrow> bool" where
  "is_space c = (let n = (of_char c :: nat) in
     (9 \<le> n \<and> n \<le> 13) \<or> (28 \<le> n \<and> n \<le> 32) \<or> n = 133 \<or> n = 160)"

definition lower_char :: "char \<Rightarrow> char" where
  "lower_char c = (let n = (of_char c :: nat) in
     if (65 \<le> n \<and> n \<le> 90) \<or> (192 \<le> n \<and> n \<le> 222 \<and> n \<noteq> 215)
     then char_of (n + 32) else c)"

definition lower :: "string \<Rightarrow> string" where
  "lower s = map lower_char s"

definition strip :: "string \<Rightarrow> string" where
  "strip s = rev (dropWhile is_space (rev (dropWhile is_space s)))"

text \<open>The test \<open>not text or text.strip() == ''\<close> of the source.\<close>

definition blank :: "string \<Rightarrow> bool" where
  "blank s = (s = [] \<or> strip s = [])"

section \<open>SymbolLinker: \<open>_extract_stock_symbols\<close>\<close>

text \<open>
  The pattern \<open>(\d{4})\.SR\<close> has a fixed length of seven characters; \<open>matches_sr s\<close>
  says that it matches at the start of \<open>s\<close>.
\<close>

fun matches_sr :: "string \<Rightarrow> bool" where
  "matches_sr (a # b # c # d # e # f # g # _) =
     (is_digit a \<and> is_digit b \<and> is_digit c \<and> is_digit d \<and>
      e = CHR ''.'' \<and> f = CHR ''S'' \<and> g = CHR ''R'')"
| "matches_sr _ = False"

text \<open>
  \<open>re.findall\<close> scans from the left: at a position where the pattern matches it
  records the group (the four digits) and goes on behind the match, otherwise it
  moves one character on.
\<close>

function findall_sr :: "string \<Rightarrow> string list" where
  "findall_sr s =
     (if s = [] then []
      else if matches_sr s then take 4 s # findall_sr (drop 7 s)
      else findall_sr (tl s))"
  by pat_completeness auto
termination
  by (relation "measure length") (auto simp: neq_Nil_conv)

declare findall_sr.simps [simp del]

text \<open>The dictionary \<open>stock_name_mapping\<close>, in the order of the source.\<close>

definition stock_name_mapping :: "(string \<times> string) list" where
  "stock_name_mapping =
    [(''aramco'', ''2222.SR''),
     (''saudi aramco'', ''2222.SR''),
     (''sabic'', ''2010.SR''),
     (''al rajhi'', ''1120.SR''),
     (''rajhi bank'', ''1120.SR''),
     (''stc'', ''7010.SR''),
     (''saudi telecom'', ''7010.SR''),
     (''samba'', ''1090.SR''),
     (''ncb'', ''1180.SR''),
     (''national commercial bank'', ''1180.SR''),
     (''maaden'', ''1211.SR''),
     (''saudi arabian mining'', ''1211.SR''),
     (''almarai'', ''2280.SR'')]"

text \<open>The tickers read by the regular expression, with the suffix put back.\<close>

definition regex_symbols :: "string \<Rightarrow> string list" where
  "regex_symbols text = map (\<lambda>symbol. symbol @ ''.SR'') (findall_sr text)"

text \<open>The loop over the alias table: \<open>name in text_lower\<close> is the substring test.\<close>

definition alias_symbols :: "string \<Rightarrow> string list" where
  "alias_symbols text =
     (let text_lower = lower text
      in map snd (filter (\<lambda>(name, symbol). sublist name text_lower) stock_name_mapping))"

text \<open>
  \<open>sorted(list(set(symbols)))\<close>: duplicates are removed and the rest is sorted by
  the order of Python strings, the lexicographic order on code points. Nothing in
  the body raises on a \<open>str\<close>, so the handler returning \<open>[]\<close> is never entered.
\<close>

definition extract_stock_symbols :: "string \<Rightarrow> string list" where
  "extract_stock_symbols text = sort (remdups (regex_symbols text @ alias_symbols text))"

section \<open>Exceptions\<close>

text \<open>
  The exceptions the modelled code can meet, each with the text \<open>str(e)\<close> gives.
  A function whose body can raise returns \<open>py_exn + 'a\<close>, with \<open>Inl\<close> for the
  raised exception; a \<open>try\<close>/\<open>except\<close> is a case distinction on that result.
\<close>

datatype py_exn =
    ValueError string
  | TypeError string
  | OverflowError string
  | AttributeError string
  | RequestException string
  | PyMongoError string
  | OtherError string

fun exn_str :: "py_exn \<Rightarrow> string" where
  "exn_str (ValueError m) = m"
| "exn_str (TypeError m) = m"
| "exn_str (OverflowError m) = m"
| "exn_str (AttributeError m) = m"
| "exn_str (RequestException m) = m"
| "exn_str (PyMongoError m) = m"
| "exn_str (OtherError m) = m"

fun is_request_exception :: "py_exn \<Rightarrow> bool" where
  "is_request_exception (RequestException _) = True"
| "is_request_exception _ = False"

fun is_pymongo_error :: "py_exn \<Rightarrow> bool" where
  "is_pymongo_error (PyMongoError _) = True"
| "is_pymongo_error _ = False"

section \<open>Timestamps\<close>

text \<open>
  A naive \<open>datetime.datetime\<close>. The constructor \<open>datetime(year, month, day)\<close>
  checks the year, the month and the day in this order and raises \<open>ValueError\<close>
  on the first that is out of range.
\<close>

record datetime =
  year :: nat
  month :: nat
  day :: nat
  hour :: nat
  minute :: nat
  second :: nat
  microsecond :: nat

definition is_leap :: "nat \<Rightarrow> bool" where
  "is_leap y = (y mod 4 = 0 \<and> (y mod 100 \<noteq> 0 \<or> y mod 400 = 0))"

definition days_in_month :: "nat \<Rightarrow> nat \<Rightarrow> nat" where
  "days_in_month y m =
     (if m = 2 then (if is_leap y then 29 else 28)
      else if m = 4 \<or> m = 6 \<or> m = 9 \<or> m = 11 then 30
      else 31)"

definition valid_datetime :: "datetime \<Rightarrow> bool" where
  "valid_datetime d =
     (1 \<le> year d \<and> year d \<le> 9999 \<and> 1 \<le> month d \<and> month d \<le> 12 \<and>
      1 \<le> day d \<and> day d \<le> days_in_month (year d) (month d) \<and>
      hour d < 24 \<and> minute d < 60 \<and> second d < 60 \<and> microsecond d < 1000000)"

definition mk_datetime :: "nat \<Rightarrow> nat \<Rightarrow> nat \<Rightarrow> py_exn + datetime" where
  "mk_datetime y m d =
     (if \<not> (1 \<le> y \<and> y \<le> 9999) then Inl (ValueError ''year is out of range'')
      else if \<not> (1 \<le> m \<and> m \<le> 12) then Inl (ValueError ''month must be in 1..12'')
      else if \<not> (1 \<le> d \<and> d \<le> days_in_month y m)
        then Inl (ValueError ''day is out of range for month'')
      else Inr \<lparr>year = y, month = m, day = d, hour = 0, minute = 0, second = 0,
                microsecond = 0\<rparr>)"

text \<open>
  The proleptic Gregorian ordinal of a date (1 for 0001-01-01) and its inverse, as
  \<open>datetime\<close> computes them; subtracting \<open>timedelta(days=n)\<close> moves the ordinal and
  keeps the time of day, and raises \<open>OverflowError\<close> when \<open>n\<close> is beyond a
  \<open>timedelta\<close> or the result is beyond year 1 .. 9999. Datetimes are compared in time
  order, which \<open>dt_micros\<close> (microseconds since the start of year 1) gives. The
  table of the days before a month is read for the months 1 .. 12 only, which are
  the months of every \<open>datetime\<close> value.
\<close>

definition days_before_year :: "nat \<Rightarrow> nat" where
  "days_before_year y = (let p = y - 1 in p * 365 + p div 4 - p div 100 + p div 400)"

definition days_before_month :: "nat \<Rightarrow> nat \<Rightarrow> nat" where
  "days_before_month y m =
     (if 1 \<le> m \<and> m \<le> 12
      then [0, 31, 59, 90, 120, 151, 181, 212, 243, 273, 304, 334] ! (m - 1) else 0)
       + (if m > 2 \<and> is_leap y then 1 else 0)"

definition ymd2ord :: "nat \<Rightarrow> nat \<Rightarrow> nat \<Rightarrow> nat" where
  "ymd2ord y m d = days_before_year y + days_before_month y m + d"




definition dt_micros :: "datetime \<Rightarrow> nat" where
  "dt_micros d =
     (((ymd2ord (year d) (month d) (day d) * 24 + hour d) * 60 + minute d) * 60 + second d)
       * 1000000 + microsecond d"

section \<open>DateNormalizer: \<open>_parse_date\<close>\<close>

text \<open>
  \<open>first_some f xs\<close> tries the alternatives \<open>xs\<close> in order and stops at the first
  that succeeds: the \<open>for\<close> loop over the formats that returns from its body, and
  the alternatives of a greedy bounded repetition in a regular expression.
\<close>

fun first_some :: "('a \<Rightarrow> 'b option) \<Rightarrow> 'a list \<Rightarrow> 'b option" where
  "first_some f [] = None"
| "first_some f (x # xs) = (case f x of Some y \<Rightarrow> Some y | None \<Rightarrow> first_some f xs)"

definition date_formats :: "string list" where
  "date_formats =
     [''%Y-%m-%d'', ''%d-%m-%Y'', ''%b %d, %Y'', ''%d %b %Y'',
      ''%B %d, %Y'', ''%d %B %Y'', ''%Y/%m/%d'', ''%d/%m/%Y'']"

text \<open>
  The pattern \<open>(\d{1,2})[/-](\d{1,2})[/-](\d{2,4})\<close>. \<open>take_digits n s\<close> reads exactly
  \<open>n\<close> digits, \<open>take_sep\<close> one separator; a repetition \<open>\d{a,b}\<close> tries the longest
  run first and backs off. \<open>re.search\<close> takes the leftmost position with a match.
\<close>

definition take_digits :: "nat \<Rightarrow> string \<Rightarrow> (string \<times> string) option" where
  "take_digits n s =
     (if n \<le> length s \<and> list_all is_digit (take n s) then Some (take n s, drop n s) else None)"

fun take_sep :: "string \<Rightarrow> string option" where
  "take_sep [] = None"
| "take_sep (c # cs) = (if c = CHR ''/'' \<or> c = CHR ''-'' then Some cs else None)"

definition match_year ::
  "string \<Rightarrow> string \<Rightarrow> string \<Rightarrow> (string \<times> string \<times> string) option" where
  "match_year g1 g2 s =
     first_some (\<lambda>n3.
       case take_digits n3 s of None \<Rightarrow> None
       | Some (g3, r) \<Rightarrow> Some (g1, g2, g3)) [4, 3, 2]"

definition match_month :: "string \<Rightarrow> string \<Rightarrow> (string \<times> string \<times> string) option" where
  "match_month g1 s =
     first_some (\<lambda>n2.
       case take_digits n2 s of None \<Rightarrow> None
       | Some (g2, r) \<Rightarrow>
       (case take_sep r of None \<Rightarrow> None | Some r' \<Rightarrow> match_year g1 g2 r')) [2, 1]"

definition match_date_at :: "string \<Rightarrow> (string \<times> string \<times> string) option" where
  "match_date_at s =
     first_some (\<lambda>n1.
       case take_digits n1 s of None \<Rightarrow> None
       | Some (g1, r) \<Rightarrow>
       (case take_sep r of None \<Rightarrow> None | Some r' \<Rightarrow> match_month g1 r')) [2, 1]"

fun search_date :: "string \<Rightarrow> (string \<times> string \<times> string) option" where
  "search_date [] = match_date_at []"
| "search_date (c # cs) =
     (case match_date_at (c # cs) of Some g \<Rightarrow> Some g | None \<Rightarrow> search_date cs)"

text \<open>\<open>int(s)\<close> on a string of decimal digits.\<close>

definition digit_val :: "char \<Rightarrow> nat" where
  "digit_val c = of_char c - 48"

definition int_of_digits :: "string \<Rightarrow> nat" where
  "int_of_digits s = foldl (\<lambda>n c. 10 * n + digit_val c) 0 s"

text \<open>
  The body of the \<open>try\<close> block. \<open>strptime s fmt\<close> is the library call
  \<open>datetime.datetime.strptime\<close>, \<open>None\<close> when it raises \<open>ValueError\<close>; \<open>now\<close> is
  the value of \<open>datetime.datetime.now()\<close>.
\<close>

definition parse_date_body ::
  "(string \<Rightarrow> string \<Rightarrow> datetime option) \<Rightarrow> datetime \<Rightarrow> string \<Rightarrow> py_exn + datetime" where
  "parse_date_body strptime now date_str =
     (if blank date_str then Inr now
      else case first_some (\<lambda>date_format. strptime (strip date_str) date_format) date_formats of
        Some d \<Rightarrow> Inr d
      | None \<Rightarrow>
        (case search_date date_str of
           Some (dd, mm, yy) \<Rightarrow>
             (let yy = (if length yy = 2 then ''20'' @ yy else yy)
              in mk_datetime (int_of_digits yy) (int_of_digits mm) (int_of_digits dd))
         | None \<Rightarrow> Inr now))"

text \<open>The handler \<open>except Exception\<close> around the body returns the current time.\<close>

definition parse_date ::
  "(string \<Rightarrow> string \<Rightarrow> datetime option) \<Rightarrow> datetime \<Rightarrow> string \<Rightarrow> datetime" where
  "parse_date strptime now date_str =
     (case parse_date_body strptime now date_str of Inl e \<Rightarrow> now | Inr d \<Rightarrow> d)"

section \<open>Python values and dictionaries\<close>

text \<open>
  The values kept in the sentiment dictionaries: a \<open>float\<close>, taken as a real number,
  or a \<open>str\<close>. A dictionary with string keys is a map; \<open>d.get(k, default)\<close> is
  \<open>dict_get\<close>.
\<close>

datatype pyval = Num real | Str string

type_synonym pydict = "string \<rightharpoonup> pyval"


section \<open>SentimentScorer: \<open>analyze_sentiment\<close>\<close>

text \<open>
  The two estimators are library calls: \<open>polarity_scores\<close> is VADER's
  \<open>SentimentIntensityAnalyzer.polarity_scores\<close>, \<open>textblob\<close> gives the pair
  \<open>(polarity, subjectivity)\<close> of \<open>TextBlob(text).sentiment\<close>. Either may raise.
\<close>

record vader_scores =
  vs_compound :: real
  vs_pos :: real
  vs_neg :: real
  vs_neu :: real

definition analyze_sentiment ::
  "(string \<Rightarrow> py_exn + vader_scores) \<Rightarrow> (string \<Rightarrow> py_exn + real \<times> real) \<Rightarrow> string \<Rightarrow> pydict" where
  "analyze_sentiment polarity_scores textblob text =
     (if blank text then
        map_of [(''compound'', Num 0), (''positive'', Num 0), (''negative'', Num 0),
                (''neutral'', Num 1)]
      else
        case polarity_scores text of
          Inl e \<Rightarrow>
            map_of [(''compound'', Num 0), (''positive'', Num 0), (''negative'', Num 0),
                    (''neutral'', Num 1), (''polarity'', Num 0), (''subjectivity'', Num 0),
                    (''error'', Str (exn_str e))]
        | Inr vader \<Rightarrow>
          (case textblob text of
             Inl e \<Rightarrow>
               map_of [(''compound'', Num 0), (''positive'', Num 0), (''negative'', Num 0),
                       (''neutral'', Num 1), (''polarity'', Num 0), (''subjectivity'', Num 0),
                       (''error'', Str (exn_str e))]
           | Inr (textblob_polarity, textblob_subjectivity) \<Rightarrow>
               map_of [(''compound'', Num (vs_compound vader)),
                       (''positive'', Num (vs_pos vader)),
                       (''negative'', Num (vs_neg vader)),
                       (''neutral'', Num (vs_neu vader)),
                       (''polarity'', Num textblob_polarity),
                       (''subjectivity'', Num textblob_subjectivity)]))"

section \<open>Effects: calls to the outside and pauses\<close>

text \<open>
  The network and the translation service answer differently from call to call, so
  each is a function of the number of calls made before; \<open>calls\<close> counts them and
  \<open>sleeps\<close> records the arguments of \<open>time.sleep\<close> in order.
\<close>

record io_state =
  calls :: nat
  sleeps :: "nat list"

definition tick :: "io_state \<Rightarrow> io_state" where
  "tick st = st\<lparr>calls := calls st + 1\<rparr>"

definition sleep :: "nat \<Rightarrow> io_state \<Rightarrow> io_state" where
  "sleep n st = st\<lparr>sleeps := sleeps st @ [n]\<rparr>"

definition max_retries :: nat where
  "max_retries = 3"

section \<open>Translator: \<open>translate_text\<close>\<close>

text \<open>
  \<open>translator n text src dest\<close> is the answer of \<open>self.translator.translate\<close> to the
  call number \<open>n\<close>: the translated text, or the exception raised.
\<close>

type_synonym translator = "nat \<Rightarrow> string \<Rightarrow> string \<Rightarrow> string \<Rightarrow> py_exn + string"

text \<open>\<open>[text[i:i+4999] for i in range(0, len(text), 4999)]\<close>\<close>

function chunks_of :: "nat \<Rightarrow> string \<Rightarrow> string list" where
  "chunks_of n s = (if n = 0 \<or> s = [] then [] else take n s # chunks_of n (drop n s))"
  by pat_completeness auto
termination
  by (relation "measure (\<lambda>(n, s). length s)") auto

declare chunks_of.simps [simp del]

text \<open>\<open>' '.join(translated_chunks)\<close>\<close>

fun join_space :: "string list \<Rightarrow> string" where
  "join_space [] = []"
| "join_space [x] = x"
| "join_space (x # y # ys) = x @ '' '' @ join_space (y # ys)"

text \<open>
  The loop over the chunks: a chunk whose translation raises ends the loop with that
  exception; after each translated chunk the code pauses for one second.
\<close>

fun translate_chunks ::
  "translator \<Rightarrow> string \<Rightarrow> string \<Rightarrow> string list \<Rightarrow> io_state \<Rightarrow> (py_exn + string list) \<times> io_state" where
  "translate_chunks tr source_lang target_lang [] st = (Inr [], st)"
| "translate_chunks tr source_lang target_lang (chunk # rest) st =
     (case tr (calls st) chunk source_lang target_lang of
        Inl e \<Rightarrow> (Inl e, tick st)
      | Inr t \<Rightarrow>
        (case translate_chunks tr source_lang target_lang rest (sleep 1 (tick st)) of
           (Inl e, st') \<Rightarrow> (Inl e, st')
         | (Inr ts, st') \<Rightarrow> (Inr (t # ts), st')))"

text \<open>The body of the \<open>try\<close> block of one attempt.\<close>

definition translate_body ::
  "translator \<Rightarrow> string \<Rightarrow> string \<Rightarrow> string \<Rightarrow> io_state \<Rightarrow> (py_exn + string) \<times> io_state" where
  "translate_body tr text source_lang target_lang st =
     (if blank text then (Inr [], st)
      else if length text < 5000 then
        (tr (calls st) text source_lang target_lang, tick st)
      else
        case translate_chunks tr source_lang target_lang (chunks_of 4999 text) st of
          (Inl e, st') \<Rightarrow> (Inl e, st')
        | (Inr translated_chunks, st') \<Rightarrow> (Inr (join_space translated_chunks), st'))"

text \<open>
  The loop \<open>for attempt in range(max_retries)\<close>. A result \<open>None\<close> stands for the end
  of the loop without a \<open>return\<close>, where Python returns \<open>None\<close>.
\<close>

function translate_attempts ::
  "translator \<Rightarrow> string \<Rightarrow> string \<Rightarrow> string \<Rightarrow> nat \<Rightarrow> nat \<Rightarrow> io_state \<Rightarrow> string option \<times> io_state" where
  "translate_attempts tr text source_lang target_lang attempt retry_delay st =
     (if attempt \<ge> max_retries then (None, st)
      else
        case translate_body tr text source_lang target_lang st of
          (Inr translation, st') \<Rightarrow> (Some translation, st')
        | (Inl e, st') \<Rightarrow>
            if attempt < max_retries - 1
            then translate_attempts tr text source_lang target_lang (attempt + 1)
                   (retry_delay * 2) (sleep retry_delay st')
            else (Some text, st'))"
  by pat_completeness auto
termination
  by (relation "measure (\<lambda>(tr, text, sl, tl, attempt, d, st). max_retries - attempt)") auto

declare translate_attempts.simps [simp del]

definition translate_text ::
  "translator \<Rightarrow> string \<Rightarrow> string \<Rightarrow> string \<Rightarrow> io_state \<Rightarrow> string option \<times> io_state" where
  "translate_text tr text source_lang target_lang st =
     translate_attempts tr text source_lang target_lang 0 2 st"

section \<open>Articles\<close>

text \<open>
  An article dictionary. The first six keys are set when the article is fetched; the
  others are added by \<open>process_news_article\<close>, and \<open>None\<close> stands for a key that is
  not there (for \<open>title_en\<close> and \<open>content_en\<close> also for the value \<open>None\<close>).
\<close>

record article =
  title :: string
  url :: string
  published_date :: datetime
  source :: string
  language :: string
  content :: string
  title_en :: "string option"
  content_en :: "string option"
  sentiment :: "pydict option"
  symbols :: "string list option"
  processed_at :: "datetime option"
  error :: "string option"

section \<open>\<open>process_news_article\<close>\<close>

definition analyze_and_link ::
  "(string \<Rightarrow> py_exn + vader_scores) \<Rightarrow> (string \<Rightarrow> py_exn + real \<times> real) \<Rightarrow> datetime
    \<Rightarrow> string \<Rightarrow> article \<Rightarrow> article" where
  "analyze_and_link polarity_scores textblob now text_for_analysis a =
     a\<lparr>sentiment := Some (analyze_sentiment polarity_scores textblob text_for_analysis),
       symbols := Some (extract_stock_symbols text_for_analysis),
       processed_at := Some now\<rparr>"

text \<open>
  For an Arabic article the title and then the content are translated. Were a
  translation \<open>None\<close>, building \<open>text_for_analysis\<close> would raise \<open>TypeError\<close> and the
  handler would record it under \<open>error\<close>.
\<close>

definition process_news_article ::
  "translator \<Rightarrow> (string \<Rightarrow> py_exn + vader_scores) \<Rightarrow> (string \<Rightarrow> py_exn + real \<times> real)
    \<Rightarrow> datetime \<Rightarrow> article \<Rightarrow> io_state \<Rightarrow> article \<times> io_state" where
  "process_news_article tr polarity_scores textblob now a st =
     (if language a = ''ar'' then
        (case translate_text tr (title a) ''ar'' ''en'' st of
           (t_en, st1) \<Rightarrow>
           (case translate_text tr (content a) ''ar'' ''en'' st1 of
              (c_en, st2) \<Rightarrow>
              (let a2 = a\<lparr>title_en := t_en, content_en := c_en\<rparr>
               in case t_en of
                    None \<Rightarrow>
                      (a2\<lparr>error := Some (''unsupported operand type(s) for +: ''
                           @ [CHR 0x27] @ ''NoneType'' @ [CHR 0x27] @ '' and ''
                           @ [CHR 0x27] @ ''str'' @ [CHR 0x27])\<rparr>, st2)
                  | Some t \<Rightarrow>
                    (case c_en of
                       None \<Rightarrow>
                         (a2\<lparr>error := Some (''can only concatenate str (not ''
                              @ [CHR 0x22] @ ''NoneType'' @ [CHR 0x22] @ '') to str'')\<rparr>, st2)
                     | Some c \<Rightarrow>
                         (analyze_and_link polarity_scores textblob now (t @ '' '' @ c) a2,
                          st2)))))
      else
        (analyze_and_link polarity_scores textblob now (title a @ '' '' @ content a)
           (a\<lparr>title_en := Some (title a), content_en := Some (content a)\<rparr>), st))"

section \<open>SourceFetcher and ArticleExtractor\<close>

text \<open>
  A source descriptor (the keys \<open>name\<close>, \<open>url\<close>, \<open>language\<close>, \<open>type\<close> of the source
  dictionaries).
\<close>

record news_source =
  src_name :: string
  src_url :: string
  src_language :: string
  src_type :: string

definition news_sources :: "news_source list" where
  "news_sources =
    [\<lparr>src_name = ''Argaam'', src_url = ''https://www.argaam.com/en/company/companies-prices'',
      src_language = ''en'', src_type = ''financial''\<rparr>,
     \<lparr>src_name = ''Saudi Exchange'',
      src_url = ''https://www.saudiexchange.sa/wps/portal/tadawul/market-participants/news'',
      src_language = ''en'', src_type = ''exchange''\<rparr>,
     \<lparr>src_name = ''Arab News'', src_url = ''https://www.arabnews.com/tags/saudi-stock-exchange'',
      src_language = ''en'', src_type = ''general''\<rparr>,
     \<lparr>src_name = ''CNBC Arabia'', src_url = ''https://www.cnbcarabia.com/market/saudi'',
      src_language = ''ar'', src_type = ''financial''\<rparr>,
     \<lparr>src_name = ''Aleqtisadiah'', src_url = ''https://www.aleqt.com/tags/31'',
      src_language = ''ar'', src_type = ''financial''\<rparr>]"

text \<open>
  \<open>http n url\<close> is the answer of \<open>requests.get\<close> to the call number \<open>n\<close>: the
  exception it raises, or the status code and the body of the response.
  \<open>raise_for_status\<close> raises \<open>HTTPError\<close>, a \<open>RequestException\<close>, for a status from 400
  to 599.
\<close>

type_synonym http = "nat \<Rightarrow> string \<Rightarrow> py_exn + nat \<times> string"

definition raise_for_status :: "nat \<Rightarrow> py_exn option" where
  "raise_for_status status =
     (if 400 \<le> status \<and> status < 600 then Some (RequestException ''HTTPError'') else None)"

text \<open>
  What the code reads of the parsed page (BeautifulSoup): the elements a selector
  finds in a page, the first element a selector finds under an element, the text and
  the \<open>href\<close> attribute of an element; for the article page, with \<open>script\<close> and
  \<open>style\<close> removed, the first element a selector finds, the body, and
  \<open>get_text(separator=' ', strip=True)\<close>.
\<close>

record 'n soup_lib =
  soup_select :: "string \<Rightarrow> string \<Rightarrow> 'n list"
  select_one :: "'n \<Rightarrow> string \<Rightarrow> 'n option"
  elem_text :: "'n \<Rightarrow> string"
  elem_href :: "'n \<Rightarrow> string option"
  doc_select_one :: "string \<Rightarrow> string \<Rightarrow> 'n option"
  doc_body :: "string \<Rightarrow> 'n option"
  get_text :: "'n \<Rightarrow> string"

definition content_selectors :: "string list" where
  "content_selectors =
     [''div.article-content'', ''div.entry-content'', ''div.post-content'', ''div.content'',
      ''article'', ''main'']"

text \<open>\<open>re.sub(r'\s+', ' ', s)\<close>: every run of white space becomes one space.\<close>

function collapse_ws :: "string \<Rightarrow> string" where
  "collapse_ws [] = []"
| "collapse_ws (c # cs) =
     (if is_space c then CHR '' '' # collapse_ws (dropWhile is_space cs)
      else c # collapse_ws cs)"
  by pat_completeness auto
termination
  by (relation "measure length") (auto simp: length_dropWhile_le less_Suc_eq_le)

text \<open>
  The text of an article page: the first content selector that finds an element gives
  the text; an empty text is replaced by the text of the body, and a page without a
  body raises \<open>AttributeError\<close>.
\<close>

definition page_content :: "'n soup_lib \<Rightarrow> string \<Rightarrow> py_exn + string" where
  "page_content lib page =
     (let article_content =
            (case first_some (doc_select_one lib page) content_selectors of
               Some content_elem \<Rightarrow> get_text lib content_elem
             | None \<Rightarrow> [])
      in if article_content = [] then
           (case doc_body lib page of
              None \<Rightarrow> Inl (AttributeError (''NoneType object has no attribute get_text''))
            | Some b \<Rightarrow> Inr (strip (collapse_ws (get_text lib b))))
         else Inr (strip (collapse_ws article_content)))"

text \<open>\<open>_fetch_article_content\<close>: one request, and every exception gives the empty text.\<close>

definition fetch_article_content ::
  "'n soup_lib \<Rightarrow> http \<Rightarrow> string \<Rightarrow> io_state \<Rightarrow> string \<times> io_state" where
  "fetch_article_content lib http u st =
     (if u = [] then ([], st)
      else
        case http (calls st) u of
          Inl e \<Rightarrow> ([], tick st)
        | Inr (status, page) \<Rightarrow>
          (case raise_for_status status of
             Some e \<Rightarrow> ([], tick st)
           | None \<Rightarrow>
             (case page_content lib page of
                Inl e \<Rightarrow> ([], tick st)
              | Inr article_content \<Rightarrow> (article_content, tick st))))"

text \<open>
  The branches on the name of the source differ in four strings only: the selector
  of the list items, of the title link and of the date, and the origin put before a
  relative link. A name without a branch leaves the list of articles empty.
\<close>

definition source_selectors :: "string \<Rightarrow> (string \<times> string \<times> string \<times> string) option" where
  "source_selectors name =
     (if name = ''Argaam'' then
        Some (''div.article-box'', ''h3.title a'', ''span.date'', ''https://www.argaam.com'')
      else if name = ''Saudi Exchange'' then
        Some (''div.news-item'', ''h3.news-title a'', ''span.news-date'',
              ''https://www.saudiexchange.sa'')
      else if name = ''Arab News'' then
        Some (''div.article-item'', ''h3.article-title a'', ''span.article-date'',
              ''https://www.arabnews.com'')
      else if name = ''CNBC Arabia'' then
        Some (''div.news-card'', ''h3.card-title a'', ''span.card-date'',
              ''https://www.cnbcarabia.com'')
      else if name = ''Aleqtisadiah'' then
        Some (''div.article-item'', ''h2.article-title a'', ''span.article-date'',
              ''https://www.aleqt.com'')
      else None)"

text \<open>
  The dictionary appended for a list item: it has the six keys \<open>title\<close>, \<open>url\<close>,
  \<open>published_date\<close>, \<open>source\<close>, \<open>language\<close> and \<open>content\<close>.
\<close>

definition raw_article ::
  "string \<Rightarrow> string \<Rightarrow> datetime \<Rightarrow> string \<Rightarrow> string \<Rightarrow> string \<Rightarrow> article" where
  "raw_article t u d s l c =
     \<lparr>title = t, url = u, published_date = d, source = s, language = l, content = c,
      title_en = None, content_en = None, sentiment = None, symbols = None,
      processed_at = None, error = None\<rparr>"

text \<open>
  The loop over the list items of one page. An item without a title link is passed
  over. Nothing else in the body of the loop can raise here, so the handler that
  logs and goes on to the next item is never entered.
\<close>

fun extract_articles ::
  "'n soup_lib \<Rightarrow> http \<Rightarrow> (string \<Rightarrow> string \<Rightarrow> datetime option) \<Rightarrow> datetime \<Rightarrow> news_source
    \<Rightarrow> string \<Rightarrow> string \<Rightarrow> string \<Rightarrow> 'n list \<Rightarrow> io_state \<Rightarrow> article list \<times> io_state" where
  "extract_articles lib http strptime now src title_sel date_sel base [] st = ([], st)"
| "extract_articles lib http strptime now src title_sel date_sel base (element # rest) st =
     (case select_one lib element title_sel of
        None \<Rightarrow> extract_articles lib http strptime now src title_sel date_sel base rest st
      | Some title_elem \<Rightarrow>
        (let href = (case elem_href lib title_elem of None \<Rightarrow> [] | Some h \<Rightarrow> h);
             u = (if href \<noteq> [] \<and> \<not> prefix ''http'' href then base @ href else href);
             date_str = (case select_one lib element date_sel of
                           None \<Rightarrow> []
                         | Some date_elem \<Rightarrow> strip (elem_text lib date_elem))
         in case fetch_article_content lib http u st of
              (article_content, st1) \<Rightarrow>
              (case extract_articles lib http strptime now src title_sel date_sel base rest st1 of
                 (articles, st2) \<Rightarrow>
                   (raw_article (strip (elem_text lib title_elem)) u
                      (parse_date strptime now date_str) (src_name src) (src_language src)
                      article_content # articles, st2))))"

text \<open>The body of the \<open>try\<close> block of one attempt of \<open>fetch_news_from_source\<close>.\<close>

definition fetch_body ::
  "'n soup_lib \<Rightarrow> http \<Rightarrow> (string \<Rightarrow> string \<Rightarrow> datetime option) \<Rightarrow> datetime \<Rightarrow> news_source
    \<Rightarrow> io_state \<Rightarrow> (py_exn + article list) \<times> io_state" where
  "fetch_body lib http strptime now src st =
     (case http (calls st) (src_url src) of
        Inl e \<Rightarrow> (Inl e, tick st)
      | Inr (status, page) \<Rightarrow>
        (case raise_for_status status of
           Some e \<Rightarrow> (Inl e, tick st)
         | None \<Rightarrow>
           (case source_selectors (src_name src) of
              None \<Rightarrow> (Inr [], tick st)
            | Some (list_sel, title_sel, date_sel, base) \<Rightarrow>
              (case extract_articles lib http strptime now src title_sel date_sel base
                      (soup_select lib page list_sel) (tick st) of
                 (articles, st') \<Rightarrow> (Inr articles, st')))))"

text \<open>
  The retry loop. Only a \<open>RequestException\<close> is handled; any other exception leaves
  the function. \<open>Inr None\<close> stands for the end of the loop without a \<open>return\<close>.
\<close>

function fetch_attempts ::
  "'n soup_lib \<Rightarrow> http \<Rightarrow> (string \<Rightarrow> string \<Rightarrow> datetime option) \<Rightarrow> datetime \<Rightarrow> news_source
    \<Rightarrow> nat \<Rightarrow> nat \<Rightarrow> io_state \<Rightarrow> (py_exn + article list option) \<times> io_state" where
  "fetch_attempts lib http strptime now src attempt retry_delay st =
     (if attempt \<ge> max_retries then (Inr None, st)
      else
        case fetch_body lib http strptime now src st of
          (Inr articles, st') \<Rightarrow> (Inr (Some articles), st')
        | (Inl e, st') \<Rightarrow>
            if is_request_exception e then
              (if attempt < max_retries - 1
               then fetch_attempts lib http strptime now src (attempt + 1) (retry_delay * 2)
                      (sleep retry_delay st')
               else (Inr (Some []), st'))
            else (Inl e, st'))"
  by pat_completeness auto
termination
  by (relation "measure (\<lambda>(lib, http, strptime, now, src, attempt, d, st). max_retries - attempt)")
    auto

declare fetch_attempts.simps [simp del]

definition fetch_news_from_source ::
  "'n soup_lib \<Rightarrow> http \<Rightarrow> (string \<Rightarrow> string \<Rightarrow> datetime option) \<Rightarrow> datetime \<Rightarrow> news_source
    \<Rightarrow> io_state \<Rightarrow> (py_exn + article list option) \<times> io_state" where
  "fetch_news_from_source lib http strptime now src st =
     fetch_attempts lib http strptime now src 0 2 st"

section \<open>ArticleStore: \<open>store_news_in_db\<close>\<close>

text \<open>
  The collection is the list of its documents, in the order of insertion. The log
  keeps the messages of \<open>logger.info\<close>, \<open>logger.warning\<close> and \<open>logger.error\<close>.
\<close>

datatype log_entry = Info string | Warning string | Error string

text \<open>
  \<open>insert_one\<close> either raises or stores the document; \<open>Inserted b\<close> tells whether
  \<open>result.inserted_id\<close> is true in the test of the source (the driver gives every
  document without an \<open>_id\<close> a fresh one, which is true). The answer is a function of
  the article: within one call no article reaches \<open>insert_one\<close> twice. The \<open>_id\<close>
  key itself is not part of the model.
\<close>

datatype insert_result = InsertRaises py_exn | Inserted bool

text \<open>\<open>find_one({'url': u})\<close>: the first document with that url.\<close>

definition find_one_url :: "article list \<Rightarrow> string \<Rightarrow> article option" where
  "find_one_url docs u = find (\<lambda>d. url d = u) docs"

text \<open>
  The loop over the batch, inside the \<open>try\<close> block: an exception ends the loop at
  once, with the documents stored so far left in the collection.
\<close>

fun store_loop ::
  "(article \<Rightarrow> insert_result) \<Rightarrow> article list \<Rightarrow> article list \<Rightarrow> nat \<Rightarrow> log_entry list
    \<Rightarrow> (py_exn + nat) \<times> article list \<times> log_entry list" where
  "store_loop insert_one [] docs stored_count lg = (Inr stored_count, docs, lg)"
| "store_loop insert_one (a # rest) docs stored_count lg =
     (case find_one_url docs (url a) of
        Some existing \<Rightarrow>
          store_loop insert_one rest docs stored_count
            (lg @ [Info (''Article already exists: '' @ title a)])
      | None \<Rightarrow>
        (case insert_one a of
           InsertRaises e \<Rightarrow> (Inl e, docs, lg)
         | Inserted has_id \<Rightarrow>
             if has_id
             then store_loop insert_one rest (docs @ [a]) (stored_count + 1)
                    (lg @ [Info (''Stored article: '' @ title a)])
             else store_loop insert_one rest (docs @ [a]) stored_count
                    (lg @ [Warning (''Failed to store article: '' @ title a)])))"

text \<open>The decimal digits of a number, for the messages.\<close>

function str_nat :: "nat \<Rightarrow> string" where
  "str_nat n =
     (if n < 10 then [char_of (48 + n)] else str_nat (n div 10) @ [char_of (48 + n mod 10)])"
  by pat_completeness auto
termination
  by (relation "measure id") auto

declare str_nat.simps [simp del]

text \<open>
  \<open>store_news_in_db\<close> returns the count, the collection after the call and the
  messages logged. Both handlers return 0.
\<close>

definition store_news_in_db ::
  "(article \<Rightarrow> insert_result) \<Rightarrow> article list \<Rightarrow> article list
    \<Rightarrow> nat \<times> article list \<times> log_entry list" where
  "store_news_in_db insert_one articles docs =
     (if articles = [] then (0, docs, [])
      else
        case store_loop insert_one articles docs 0 [] of
          (Inr stored_count, docs', lg) \<Rightarrow>
            (stored_count, docs',
             lg @ [Info (''Stored '' @ str_nat stored_count @ '' new articles in database'')])
        | (Inl e, docs', lg) \<Rightarrow>
            (0, docs',
             lg @ [Error ((if is_pymongo_error e then ''MongoDB error storing news: ''
                           else ''Error storing news in database: '') @ exn_str e)]))"

section \<open>ArticleStore: \<open>get_news_for_symbol\<close>\<close>


definition sort_newest_first :: "article list \<Rightarrow> article list" where
  "sort_newest_first xs = rev (sort_key (\<lambda>a. dt_micros (published_date a)) xs)"



section \<open>ArticleStore: \<open>get_sentiment_summary\<close>\<close>












section \<open>Properties of the symbol extraction\<close>


lemma not_digit_sep [simp]:
  "\<not> is_digit (CHR ''.'')" "\<not> is_digit (CHR ''S'')" "\<not> is_digit (CHR ''R'')"
  by (simp_all add: is_digit_def)


lemma matches_sr_no_overlap:
  assumes "matches_sr s" "0 < k" "k < 7"
  shows "\<not> matches_sr (drop k s)"
proof -
  from assms(1) obtain a b c d e f g r where s: "s = a # b # c # d # e # f # g # r"
    by (cases s rule: matches_sr.cases) auto
  from assms(2,3) consider "k = 1" | "k = 2" | "k = 3" | "k = 4" | "k = 5" | "k = 6"
    by linarith
  then show ?thesis
  proof cases
    case 1 with assms(1) s show ?thesis by (cases r rule: matches_sr.cases) auto
  next
    case 2 with assms(1) s show ?thesis by (cases r rule: matches_sr.cases) auto
  next
    case 3 with assms(1) s show ?thesis by (cases r rule: matches_sr.cases) auto
  next
    case 4 with assms(1) s show ?thesis by (cases r rule: matches_sr.cases) auto
  next
    case 5 with assms(1) s show ?thesis by (cases r rule: matches_sr.cases) auto
  next
    case 6 with assms(1) s show ?thesis by (cases r rule: matches_sr.cases) auto
  qed
qed

lemma findall_sr_complete:
  "matches_sr (drop k s) \<Longrightarrow> take 4 (drop k s) \<in> set (findall_sr s)"
proof (induction s arbitrary: k rule: findall_sr.induct)
  case (1 s)
  show ?case
  proof (cases "s = []")
    case True
    with "1.prems" show ?thesis by simp
  next
    case ne: False
    show ?thesis
    proof (cases "matches_sr s")
      case m: True
      show ?thesis
      proof (cases "k = 0")
        case True
        with ne m show ?thesis by (subst findall_sr.simps) simp
      next
        case False
        with m "1.prems" have "\<not> k < 7"
          using matches_sr_no_overlap [of s k] by auto
        then have "drop k s = drop (k - 7) (drop 7 s)" by simp
        with "1.prems" "1.IH"(1) [OF ne m, of "k - 7"]
        have "take 4 (drop k s) \<in> set (findall_sr (drop 7 s))" by simp
        with ne m show ?thesis by (subst findall_sr.simps) simp
      qed
    next
      case nm: False
      with "1.prems" have "k \<noteq> 0" by (cases "k = 0") auto
      then have "drop k s = drop (k - 1) (tl s)"
        by (cases k; cases s) (simp_all add: drop_Suc)
      with "1.prems" "1.IH"(2) [OF ne nm, of "k - 1"]
      have "take 4 (drop k s) \<in> set (findall_sr (tl s))" by simp
      with ne nm show ?thesis by (subst findall_sr.simps) simp
    qed
  qed
qed




lemma lower_append: "lower (xs @ ys) = lower xs @ lower ys"
  by (simp add: lower_def)


lemma sublist_matches_sr:
  assumes "sublist (ds @ ''.SR'') text" "length ds = 4" "\<forall>c\<in>set ds. is_digit c"
  shows "\<exists>k. matches_sr (drop k text) \<and> take 4 (drop k text) = ds"
proof -
  from assms(1) obtain ps ss where t: "text = ps @ (ds @ ''.SR'') @ ss"
    by (auto simp: sublist_def)
  from assms(2) obtain a b c d where ds: "ds = [a, b, c, d]"
    by (cases ds; cases "tl ds"; cases "tl (tl ds)"; cases "tl (tl (tl ds))") auto
  have "drop (length ps) text = ds @ ''.SR'' @ ss" using t by simp
  with ds assms(3) show ?thesis by (intro exI [of _ "length ps"]) simp
qed

lemma regex_symbol_found:
  assumes "sublist (ds @ ''.SR'') text" "length ds = 4" "\<forall>c\<in>set ds. is_digit c"
  shows "ds @ ''.SR'' \<in> set (regex_symbols text)"
proof -
  from sublist_matches_sr [OF assms] obtain k
    where "matches_sr (drop k text)" "take 4 (drop k text) = ds" by blast
  with findall_sr_complete [of k "text"] have "ds \<in> set (findall_sr text)" by simp
  then show ?thesis by (auto simp: regex_symbols_def)
qed


lemma set_extract_stock_symbols:
  "set (extract_stock_symbols text) = set (regex_symbols text) \<union> set (alias_symbols text)"
  by (simp add: extract_stock_symbols_def)






text \<open>
  Claim C10. The ticker pattern has no boundary on its left: when a run of five or
  more digits is followed at once by \<open>.SR\<close>, the last four digits of the run with the
  suffix are in the result, as \<open>2345.SR\<close> is for the text \<open>12345.SR\<close>.
\<close>
theorem extract_stock_symbols_no_left_boundary:
  "\<lbrakk>sublist (run @ ''.SR'') text; list_all is_digit run; 5 \<le> length run\<rbrakk>
    \<Longrightarrow> drop (length run - 4) run @ ''.SR'' \<in> set (extract_stock_symbols text)"
proof -
  assume h: "sublist (run @ ''.SR'') text" "list_all is_digit run" "5 \<le> length run"
  let ?ds = "drop (length run - 4) run"
  have "run @ ''.SR'' = take (length run - 4) run @ (?ds @ ''.SR'')" by simp
  then have "sublist (?ds @ ''.SR'') (run @ ''.SR'')"
    by (metis sublist_append_leftI)
  with h(1) have "sublist (?ds @ ''.SR'') text"
    using sublist_order.order_trans by blast
  moreover have "length ?ds = 4" using h(3) by simp
  moreover have "\<forall>c\<in>set ?ds. is_digit c" using h(2) by (auto simp: list_all_iff dest: in_set_dropD)
  ultimately have "?ds @ ''.SR'' \<in> set (regex_symbols text)"
    by (rule regex_symbol_found)
  then show ?thesis by (simp add: set_extract_stock_symbols)
qed

theorem extract_stock_symbols_no_left_boundary_witness:
  "sublist (''12345'' @ ''.SR'') ''12345.SR'' \<and> list_all is_digit ''12345''
   \<and> 5 \<le> length ''12345''
   \<and> ''2345.SR'' \<in> set (extract_stock_symbols ''12345.SR'')
   \<and> extract_stock_symbols ''12345.SR'' = [''2345.SR'']"
proof -
  have a: "sublist (''12345'' @ ''.SR'') ''12345.SR''" by simp
  have b: "list_all is_digit ''12345''" by (simp add: is_digit_def)
  have c: "5 \<le> length ''12345''" by simp
  have d: "extract_stock_symbols ''12345.SR'' = [''2345.SR'']" by code_simp
  from extract_stock_symbols_no_left_boundary [OF a b c] a b c d show ?thesis by simp
qed

section \<open>Properties of the date parser\<close>


lemma first_some_SomeD: "first_some f xs = Some y \<Longrightarrow> \<exists>x\<in>set xs. f x = Some y"
  by (induction xs) (auto split: option.splits)

lemma first_some_None_iff: "first_some f xs = None \<longleftrightarrow> (\<forall>x\<in>set xs. f x = None)"
  by (induction xs) (auto split: option.splits)

lemma first_some_first:
  "\<lbrakk>i < length xs; \<forall>j<i. f (xs ! j) = None; f (xs ! i) = Some y\<rbrakk> \<Longrightarrow> first_some f xs = Some y"
proof (induction xs arbitrary: i)
  case Nil
  then show ?case by simp
next
  case (Cons x xs)
  show ?case
  proof (cases i)
    case 0
    with Cons.prems show ?thesis by simp
  next
    case (Suc k)
    with Cons.prems have "f x = None" by auto
    moreover from Suc Cons.prems have "first_some f xs = Some y"
      by (intro Cons.IH [of k]) auto
    ultimately show ?thesis by simp
  qed
qed

lemma mk_datetime_valid: "mk_datetime y m d = Inr dt \<Longrightarrow> valid_datetime dt"
  by (auto simp: mk_datetime_def valid_datetime_def split: if_splits)

lemma take_digits_SomeD:
  "take_digits n s = Some (g, r) \<Longrightarrow> length g = n \<and> list_all is_digit g \<and> s = g @ r"
  by (auto simp: take_digits_def split: if_splits)

lemma take_sep_SomeD:
  "take_sep s = Some r \<Longrightarrow> \<exists>c. (c = CHR ''/'' \<or> c = CHR ''-'') \<and> s = c # r"
  by (cases s) (auto split: if_splits)

lemma match_year_SomeD:
  assumes "match_year g1 g2 s = Some (dd, mm, yy)"
  shows "dd = g1 \<and> mm = g2 \<and> list_all is_digit yy \<and> length yy \<in> {2, 3, 4} \<and> (\<exists>r. s = yy @ r)"
proof -
  from assms obtain n3 where "n3 \<in> set [4, 3, 2]"
    and "(case take_digits n3 s of None \<Rightarrow> None | Some (g3, r) \<Rightarrow> Some (g1, g2, g3))
           = Some (dd, mm, yy)"
    unfolding match_year_def by (blast dest: first_some_SomeD)
  then show ?thesis
    by (auto split: option.splits dest!: take_digits_SomeD)
qed

lemma match_month_SomeD:
  assumes "match_month g1 s = Some (dd, mm, yy)"
  shows "dd = g1 \<and> list_all is_digit mm \<and> length mm \<in> {1, 2}
         \<and> list_all is_digit yy \<and> length yy \<in> {2, 3, 4}
         \<and> (\<exists>c r. (c = CHR ''/'' \<or> c = CHR ''-'') \<and> s = mm @ c # yy @ r)"
proof -
  from assms obtain n2 where n2: "n2 \<in> set [2, 1]"
    and a: "(case take_digits n2 s of None \<Rightarrow> None
       | Some (g2, r) \<Rightarrow>
       (case take_sep r of None \<Rightarrow> None | Some r' \<Rightarrow> match_year g1 g2 r')) = Some (dd, mm, yy)"
    unfolding match_month_def by (blast dest: first_some_SomeD)
  from a obtain g2 r r' where t: "take_digits n2 s = Some (g2, r)" and p: "take_sep r = Some r'"
    and y: "match_year g1 g2 r' = Some (dd, mm, yy)"
    by (auto split: option.splits)
  from match_year_SomeD [OF y] take_digits_SomeD [OF t] take_sep_SomeD [OF p] n2
  show ?thesis by auto
qed

lemma match_date_at_SomeD:
  assumes "match_date_at s = Some (dd, mm, yy)"
  shows "\<exists>c1 c2 r. s = dd @ c1 # mm @ c2 # yy @ r
           \<and> (c1 = CHR ''/'' \<or> c1 = CHR ''-'') \<and> (c2 = CHR ''/'' \<or> c2 = CHR ''-'')
           \<and> list_all is_digit dd \<and> list_all is_digit mm \<and> list_all is_digit yy
           \<and> length dd \<in> {1, 2} \<and> length mm \<in> {1, 2} \<and> length yy \<in> {2, 3, 4}"
proof -
  from assms obtain n1 where n1: "n1 \<in> set [2, 1]"
    and a: "(case take_digits n1 s of None \<Rightarrow> None
       | Some (g1, r) \<Rightarrow>
       (case take_sep r of None \<Rightarrow> None | Some r' \<Rightarrow> match_month g1 r')) = Some (dd, mm, yy)"
    unfolding match_date_at_def by (blast dest: first_some_SomeD)
  from a obtain g1 r r' where t: "take_digits n1 s = Some (g1, r)" and p: "take_sep r = Some r'"
    and m: "match_month g1 r' = Some (dd, mm, yy)"
    by (auto split: option.splits)
  from match_month_SomeD [OF m] take_digits_SomeD [OF t] take_sep_SomeD [OF p] n1
  show ?thesis by auto
qed

lemma search_date_SomeD:
  "search_date s = Some (dd, mm, yy) \<Longrightarrow> \<exists>k. match_date_at (drop k s) = Some (dd, mm, yy)"
proof (induction s)
  case Nil
  then show ?case by (intro exI [of _ 0]) simp
next
  case (Cons c cs)
  show ?case
  proof (cases "match_date_at (c # cs)")
    case None
    with Cons.prems have "search_date cs = Some (dd, mm, yy)" by simp
    from Cons.IH [OF this] obtain k where "match_date_at (drop k cs) = Some (dd, mm, yy)" ..
    then show ?thesis by (intro exI [of _ "Suc k"]) simp
  next
    case (Some g)
    with Cons.prems show ?thesis by (intro exI [of _ 0]) simp
  qed
qed

lemma search_date_groups:
  assumes "search_date s = Some (dd, mm, yy)"
  shows "\<exists>c1 c2. sublist (dd @ c1 # mm @ c2 # yy) s
           \<and> (c1 = CHR ''/'' \<or> c1 = CHR ''-'') \<and> (c2 = CHR ''/'' \<or> c2 = CHR ''-'')
           \<and> list_all is_digit dd \<and> list_all is_digit mm \<and> list_all is_digit yy
           \<and> length dd \<in> {1, 2} \<and> length mm \<in> {1, 2} \<and> length yy \<in> {2, 3, 4}"
proof -
  from search_date_SomeD [OF assms] obtain k
    where "match_date_at (drop k s) = Some (dd, mm, yy)" ..
  from match_date_at_SomeD [OF this] obtain c1 c2 r where
    d: "drop k s = dd @ c1 # mm @ c2 # yy @ r" and
    rest: "(c1 = CHR ''/'' \<or> c1 = CHR ''-'') \<and> (c2 = CHR ''/'' \<or> c2 = CHR ''-'')
           \<and> list_all is_digit dd \<and> list_all is_digit mm \<and> list_all is_digit yy
           \<and> length dd \<in> {1, 2} \<and> length mm \<in> {1, 2} \<and> length yy \<in> {2, 3, 4}"
    by blast
  have "s = take k s @ (dd @ c1 # mm @ c2 # yy) @ r"
    using d by (metis append_take_drop_id append.assoc append_Cons)
  then have "sublist (dd @ c1 # mm @ c2 # yy) s"
    unfolding sublist_def by blast
  with rest show ?thesis by blast
qed

lemma search_date_None_iff:
  "search_date s = None \<longleftrightarrow> (\<forall>k. match_date_at (drop k s) = None)"
proof (induction s)
  case Nil
  then show ?case by simp
next
  case (Cons c cs)
  show ?case
  proof
    assume a: "search_date (c # cs) = None"
    then have m: "match_date_at (c # cs) = None" and "search_date cs = None"
      by (auto split: option.splits)
    with Cons.IH have t: "\<forall>k. match_date_at (drop k cs) = None" by simp
    show "\<forall>k. match_date_at (drop k (c # cs)) = None"
    proof
      fix k show "match_date_at (drop k (c # cs)) = None"
        using m t by (cases k) simp_all
    qed
  next
    assume a: "\<forall>k. match_date_at (drop k (c # cs)) = None"
    then have "match_date_at (c # cs) = None" by (metis drop0)
    moreover have "\<forall>k. match_date_at (drop k cs) = None"
      using a by (metis drop_Suc_Cons)
    ultimately show "search_date (c # cs) = None" using Cons.IH by simp
  qed
qed

lemma parse_date_total_valid:
  assumes "valid_datetime now" "\<forall>s f d. strptime s f = Some d \<longrightarrow> valid_datetime d"
  shows "valid_datetime (parse_date strptime now date_str)"
proof (cases "parse_date_body strptime now date_str")
  case (Inl e)
  with assms(1) show ?thesis by (simp add: parse_date_def)
next
  case (Inr d)
  have "valid_datetime d"
  proof (cases "blank date_str")
    case True
    with Inr assms(1) show ?thesis by (simp add: parse_date_body_def)
  next
    case nb: False
    show ?thesis
    proof (cases "first_some (\<lambda>date_format. strptime (strip date_str) date_format) date_formats")
      case (Some d')
      with nb Inr have "d = d'" by (simp add: parse_date_body_def)
      moreover from first_some_SomeD [OF Some] assms(2) have "valid_datetime d'" by blast
      ultimately show ?thesis by simp
    next
      case None
      show ?thesis
      proof (cases "search_date date_str")
        case sn: None
        with nb None Inr assms(1) show ?thesis by (simp add: parse_date_body_def)
      next
        case (Some g)
        obtain dd mm yy where g: "g = (dd, mm, yy)" by (cases g)
        with nb None Some Inr show ?thesis
          by (auto simp: parse_date_body_def Let_def dest: mk_datetime_valid)
      qed
    qed
  qed
  with Inr show ?thesis by (simp add: parse_date_def)
qed

text \<open>
  Claim C4. For every input string \<open>_parse_date\<close> returns a valid timestamp; the
  exceptions of its body end in the handler, so none leaves the function. A blank
  input gives the current time; otherwise the first of the eight formats that
  \<open>strptime\<close> accepts gives the result; otherwise the leftmost match of the
  permissive pattern is read as day, month and year, a year of two digits with
  \<open>20\<close> put before it, and gives that date (the current time when the constructor
  rejects it); an input that nothing matches gives the current time.
\<close>

theorem parse_date_never_fails:
  assumes "valid_datetime now"
    and "\<forall>s f d. strptime s f = Some d \<longrightarrow> valid_datetime d"
  shows "valid_datetime (parse_date strptime now date_str)
    \<and> (blank date_str \<longrightarrow> parse_date strptime now date_str = now)
    \<and> length date_formats = 8
    \<and> (\<forall>i d. \<not> blank date_str \<and> i < length date_formats
          \<and> (\<forall>j<i. strptime (strip date_str) (date_formats ! j) = None)
          \<and> strptime (strip date_str) (date_formats ! i) = Some d
        \<longrightarrow> parse_date strptime now date_str = d)
    \<and> (\<forall>dd mm yy. \<not> blank date_str
          \<and> (\<forall>f\<in>set date_formats. strptime (strip date_str) f = None)
          \<and> search_date date_str = Some (dd, mm, yy)
        \<longrightarrow> parse_date strptime now date_str =
              (case mk_datetime (int_of_digits (if length yy = 2 then ''20'' @ yy else yy))
                      (int_of_digits mm) (int_of_digits dd)
               of Inl e \<Rightarrow> now | Inr d \<Rightarrow> d)
            \<and> (\<exists>c1 c2. sublist (dd @ c1 # mm @ c2 # yy) date_str
                 \<and> (c1 = CHR ''/'' \<or> c1 = CHR ''-'') \<and> (c2 = CHR ''/'' \<or> c2 = CHR ''-'')
                 \<and> list_all is_digit dd \<and> list_all is_digit mm \<and> list_all is_digit yy
                 \<and> length dd \<in> {1, 2} \<and> length mm \<in> {1, 2} \<and> length yy \<in> {2, 3, 4}))
    \<and> (\<not> blank date_str
          \<and> (\<forall>f\<in>set date_formats. strptime (strip date_str) f = None)
          \<and> search_date date_str = None
        \<longrightarrow> parse_date strptime now date_str = now)"
proof (intro conjI allI impI)
  show "valid_datetime (parse_date strptime now date_str)"
    using assms by (rule parse_date_total_valid)
next
  assume "blank date_str"
  then show "parse_date strptime now date_str = now"
    by (simp add: parse_date_def parse_date_body_def)
next
  show "length date_formats = 8" by (simp add: date_formats_def)
next
  fix i d
  assume h: "\<not> blank date_str \<and> i < length date_formats
          \<and> (\<forall>j<i. strptime (strip date_str) (date_formats ! j) = None)
          \<and> strptime (strip date_str) (date_formats ! i) = Some d"
  then have "first_some (\<lambda>date_format. strptime (strip date_str) date_format) date_formats = Some d"
    by (intro first_some_first [of i]) auto
  with h show "parse_date strptime now date_str = d"
    by (simp add: parse_date_def parse_date_body_def)
next
  fix dd mm yy
  assume h: "\<not> blank date_str
          \<and> (\<forall>f\<in>set date_formats. strptime (strip date_str) f = None)
          \<and> search_date date_str = Some (dd, mm, yy)"
  then have "first_some (\<lambda>date_format. strptime (strip date_str) date_format) date_formats = None"
    by (simp add: first_some_None_iff)
  with h show "parse_date strptime now date_str =
              (case mk_datetime (int_of_digits (if length yy = 2 then ''20'' @ yy else yy))
                      (int_of_digits mm) (int_of_digits dd)
               of Inl e \<Rightarrow> now | Inr d \<Rightarrow> d)"
    by (simp add: parse_date_def parse_date_body_def)
  from h show "\<exists>c1 c2. sublist (dd @ c1 # mm @ c2 # yy) date_str
                 \<and> (c1 = CHR ''/'' \<or> c1 = CHR ''-'') \<and> (c2 = CHR ''/'' \<or> c2 = CHR ''-'')
                 \<and> list_all is_digit dd \<and> list_all is_digit mm \<and> list_all is_digit yy
                 \<and> length dd \<in> {1, 2} \<and> length mm \<in> {1, 2} \<and> length yy \<in> {2, 3, 4}"
    by (intro search_date_groups) simp
next
  assume h: "\<not> blank date_str
          \<and> (\<forall>f\<in>set date_formats. strptime (strip date_str) f = None)
          \<and> search_date date_str = None"
  then have "first_some (\<lambda>date_format. strptime (strip date_str) date_format) date_formats = None"
    by (simp add: first_some_None_iff)
  with h show "parse_date strptime now date_str = now"
    by (simp add: parse_date_def parse_date_body_def)
qed


theorem parse_date_never_fails_witness:
  "valid_datetime \<lparr>year = 2026, month = 11, day = 3, hour = 9, minute = 30, second = 0,
       microsecond = 250000\<rparr>
   \<and> valid_datetime (parse_date
        (\<lambda>s f. if s = ''2024-02-28'' \<and> f = ''%Y-%m-%d''
                 then Some \<lparr>year = 2024, month = 2, day = 28, hour = 0, minute = 0, second = 0,
                        microsecond = 0\<rparr>
                 else None)
        \<lparr>year = 2026, month = 11, day = 3, hour = 9, minute = 30, second = 0,
          microsecond = 250000\<rparr>
        ''on 28/2/24'')
   \<and> parse_date
        (\<lambda>s f. if s = ''2024-02-28'' \<and> f = ''%Y-%m-%d''
                 then Some \<lparr>year = 2024, month = 2, day = 28, hour = 0, minute = 0, second = 0,
                        microsecond = 0\<rparr>
                 else None)
        \<lparr>year = 2026, month = 11, day = 3, hour = 9, minute = 30, second = 0,
          microsecond = 250000\<rparr>
        ''on 28/2/24''
      = \<lparr>year = 2024, month = 2, day = 28, hour = 0, minute = 0, second = 0, microsecond = 0\<rparr>"
proof -
  let ?now = "\<lparr>year = 2026, month = 11, day = 3, hour = 9, minute = 30, second = 0,
       microsecond = 250000\<rparr>"
  let ?d = "\<lparr>year = 2024, month = 2, day = 28, hour = 0, minute = 0, second = 0,
       microsecond = 0\<rparr>"
  let ?strptime = "\<lambda>s f. if s = ''2024-02-28'' \<and> f = ''%Y-%m-%d'' then Some ?d else None"
  have a: "valid_datetime ?now"
    by (simp add: valid_datetime_def days_in_month_def)
  have b: "\<forall>s f d. ?strptime s f = Some d \<longrightarrow> valid_datetime d"
    by (simp add: valid_datetime_def days_in_month_def is_leap_def)
  have c: "\<not> blank ''on 28/2/24''" by code_simp
  have d: "\<forall>f\<in>set date_formats. ?strptime (strip ''on 28/2/24'') f = None" by code_simp
  have e: "search_date ''on 28/2/24'' = Some (''28'', ''2'', ''24'')" by code_simp
  have f: "(case mk_datetime (int_of_digits (if length ''24'' = 2 then ''20'' @ ''24'' else ''24''))
                      (int_of_digits ''2'') (int_of_digits ''28'')
               of Inl e \<Rightarrow> ?now | Inr d \<Rightarrow> d) = ?d" by code_simp
  from parse_date_never_fails [OF a b, of "''on 28/2/24''"] c d e
  have "parse_date ?strptime ?now ''on 28/2/24'' =
      (case mk_datetime (int_of_digits (if length ''24'' = 2 then ''20'' @ ''24'' else ''24''))
                      (int_of_digits ''2'') (int_of_digits ''28'')
               of Inl e \<Rightarrow> ?now | Inr d \<Rightarrow> d)"
    by blast
  with f have g: "parse_date ?strptime ?now ''on 28/2/24'' = ?d" by (simp only:)
  from parse_date_never_fails [OF a b, of "''on 28/2/24''"]
  have h: "valid_datetime (parse_date ?strptime ?now ''on 28/2/24'')" by blast
  from a g h show ?thesis by blast
qed


section \<open>Properties of the sentiment scorer\<close>





section \<open>Properties of the translator\<close>

lemma calls_tick [simp]: "calls (tick st) = calls st + 1"
  by (simp add: tick_def)

lemma sleeps_tick [simp]: "sleeps (tick st) = sleeps st"
  by (simp add: tick_def)

lemma calls_sleep [simp]: "calls (sleep n st) = calls st"
  by (simp add: sleep_def)

lemma sleeps_sleep [simp]: "sleeps (sleep n st) = sleeps st @ [n]"
  by (simp add: sleep_def)

lemma translate_attempts_success:
  "\<lbrakk>attempt < max_retries; translate_body tr t sl dl st = (Inr r, st')\<rbrakk>
    \<Longrightarrow> translate_attempts tr t sl dl attempt retry_delay st = (Some r, st')"
  by (subst translate_attempts.simps) simp

lemma translate_attempts_retry:
  "\<lbrakk>attempt < max_retries - 1; translate_body tr t sl dl st = (Inl e, st');
    attempt' = attempt + 1; retry_delay' = retry_delay * 2\<rbrakk>
    \<Longrightarrow> translate_attempts tr t sl dl attempt retry_delay st =
        translate_attempts tr t sl dl attempt' retry_delay' (sleep retry_delay st')"
  by (subst translate_attempts.simps) (simp add: max_retries_def)

lemma translate_attempts_give_up:
  "\<lbrakk>attempt < max_retries; \<not> attempt < max_retries - 1;
    translate_body tr t sl dl st = (Inl e, st')\<rbrakk>
    \<Longrightarrow> translate_attempts tr t sl dl attempt retry_delay st = (Some t, st')"
  by (subst translate_attempts.simps) simp

lemma translate_attempts_returns:
  "attempt < max_retries \<Longrightarrow>
     \<exists>r. fst (translate_attempts tr t sl dl attempt retry_delay st) = Some r"
proof (induction "max_retries - attempt" arbitrary: attempt retry_delay st)
  case 0
  then show ?case by simp
next
  case (Suc k)
  obtain res st' where b: "translate_body tr t sl dl st = (res, st')"
    by (cases "translate_body tr t sl dl st")
  show ?case
  proof (cases res)
    case (Inr r)
    with b Suc.prems show ?thesis by (simp add: translate_attempts_success)
  next
    case (Inl e)
    show ?thesis
    proof (cases "attempt < max_retries - 1")
      case True
      with Suc.hyps(2) have "k = max_retries - (attempt + 1)" "attempt + 1 < max_retries"
        by simp_all
      from Suc.hyps(1) [OF this]
      have "\<exists>r. fst (translate_attempts tr t sl dl (attempt + 1) (retry_delay * 2)
                      (sleep retry_delay st')) = Some r" .
      with b Inl True show ?thesis
        by (simp add: translate_attempts_retry [OF True _ refl refl])
    next
      case False
      with b Inl Suc.prems show ?thesis by (simp add: translate_attempts_give_up)
    qed
  qed
qed

lemma translate_body_blank: "blank text \<Longrightarrow> translate_body tr text sl dl st = (Inr [], st)"
  by (simp add: translate_body_def)

lemma chunks_of_nonempty: "s \<noteq> [] \<Longrightarrow> 0 < n \<Longrightarrow> \<exists>c cs. chunks_of n s = c # cs"
  by (subst chunks_of.simps) simp

lemma translate_body_fails:
  assumes "\<forall>n t. isl (tr n t sl dl)" "\<not> blank text"
  shows "\<exists>e. translate_body tr text sl dl st = (Inl e, tick st)"
proof (cases "length text < 5000")
  case True
  from assms(1) obtain e where "tr (calls st) text sl dl = Inl e"
    by (metis isl_def)
  with True assms(2) show ?thesis by (simp add: translate_body_def)
next
  case False
  from assms(2) have "text \<noteq> []" by (auto simp: blank_def)
  then obtain c cs where c: "chunks_of 4999 text = c # cs"
    using chunks_of_nonempty [of "text" 4999] by auto
  from assms(1) obtain e where "tr (calls st) c sl dl = Inl e"
    by (metis isl_def)
  with False assms(2) c show ?thesis by (simp add: translate_body_def)
qed

lemma translate_text_blank: "blank text \<Longrightarrow> translate_text tr text sl dl st = (Some [], st)"
  unfolding translate_text_def
  by (subst translate_attempts.simps) (simp add: translate_body_blank max_retries_def)

lemma translate_text_fails:
  assumes "\<forall>n t. isl (tr n t sl dl)" "\<not> blank text"
  shows "translate_text tr text sl dl st =
           (Some text, \<lparr>calls = calls st + 3, sleeps = sleeps st @ [2, 4]\<rparr>)"
proof -
  let ?s1 = "sleep 2 (tick st)"
  let ?s2 = "sleep 4 (tick ?s1)"
  note f = translate_body_fails [of tr sl dl "text", OF assms]
  from f [of st] obtain e0 where
    b0: "translate_body tr text sl dl st = (Inl e0, tick st)" by blast
  from f [of ?s1] obtain e1 where
    b1: "translate_body tr text sl dl ?s1 = (Inl e1, tick ?s1)" by blast
  from f [of ?s2] obtain e2 where
    b2: "translate_body tr text sl dl ?s2 = (Inl e2, tick ?s2)" by blast
  have a2: "translate_attempts tr text sl dl 2 8 ?s2 = (Some text, tick ?s2)"
    by (rule translate_attempts_give_up [OF _ _ b2]) (simp_all add: max_retries_def)
  have "translate_attempts tr text sl dl 1 4 ?s1 = translate_attempts tr text sl dl 2 8 ?s2"
    by (rule translate_attempts_retry [OF _ b1]) (simp_all add: max_retries_def)
  with a2 have a1: "translate_attempts tr text sl dl 1 4 ?s1 = (Some text, tick ?s2)"
    by (simp only:)
  have "translate_attempts tr text sl dl 0 2 st = translate_attempts tr text sl dl 1 4 ?s1"
    by (rule translate_attempts_retry [OF _ b0]) (simp_all add: max_retries_def)
  with a1 have a0: "translate_attempts tr text sl dl 0 2 st = (Some text, tick ?s2)"
    by (simp only:)
  have "tick ?s2 = \<lparr>calls = calls st + 3, sleeps = sleeps st @ [2, 4]\<rparr>"
    by (simp add: tick_def sleep_def)
  with a0 show ?thesis by (simp add: translate_text_def)
qed

lemma translate_text_fails_or_empty:
  assumes "\<forall>n t. isl (tr n t sl dl)" "text = [] \<or> \<not> blank text"
  shows "fst (translate_text tr text sl dl st) = Some text"
proof (cases "text = []")
  case True
  then have "blank text" by (simp add: blank_def)
  with True show ?thesis by (simp add: translate_text_blank)
next
  case False
  with assms(2) have "\<not> blank text" by simp
  from translate_text_fails [of tr sl dl "text" st, OF assms(1) this] show ?thesis by simp
qed

lemma content_en_analyze_and_link [simp]:
  "content_en (analyze_and_link ps tb now txt a) = content_en a"
  by (simp add: analyze_and_link_def)

lemma process_ar_content_en:
  assumes "language a = ''ar''"
  shows "content_en (fst (process_news_article tr ps tb now a st)) =
           fst (translate_text tr (content a) ''ar'' ''en''
                  (snd (translate_text tr (title a) ''ar'' ''en'' st)))"
  using assms
  by (simp add: process_news_article_def Let_def split: prod.splits option.splits)

text \<open>
  Claim C6. \<open>translate_text\<close> always returns a string: every exception of an
  attempt is caught by its handler, and the loop does not end without a \<open>return\<close>.
  An empty or blank input gives the empty string without any call. When every call
  of the translation service fails, the three attempts are made, with pauses of 2
  and 4 seconds between them, and the input text is returned unchanged; so for an
  Arabic article whose content is translated in vain, \<open>content_en\<close> is the content.
\<close>

theorem translate_text_never_raises:
  "(\<exists>r. fst (translate_text tr text sl dl st) = Some r)
   \<and> (blank text \<longrightarrow> translate_text tr text sl dl st = (Some [], st))
   \<and> ((\<forall>n t. isl (tr n t sl dl)) \<and> \<not> blank text
        \<longrightarrow> translate_text tr text sl dl st =
              (Some text, \<lparr>calls = calls st + 3, sleeps = sleeps st @ [2, 4]\<rparr>))
   \<and> ((\<forall>n t. isl (tr n t ''ar'' ''en'')) \<and> language a = ''ar''
          \<and> (content a = [] \<or> \<not> blank (content a))
        \<longrightarrow> content_en (fst (process_news_article tr polarity_scores textblob now a st))
              = Some (content a))"
proof (intro conjI impI)
  show "\<exists>r. fst (translate_text tr text sl dl st) = Some r"
    unfolding translate_text_def
    by (rule translate_attempts_returns) (simp add: max_retries_def)
next
  assume "blank text"
  then show "translate_text tr text sl dl st = (Some [], st)"
    by (rule translate_text_blank)
next
  assume "(\<forall>n t. isl (tr n t sl dl)) \<and> \<not> blank text"
  then show "translate_text tr text sl dl st =
              (Some text, \<lparr>calls = calls st + 3, sleeps = sleeps st @ [2, 4]\<rparr>)"
    using translate_text_fails [of tr sl dl "text" st] by blast
next
  assume h: "(\<forall>n t. isl (tr n t ''ar'' ''en'')) \<and> language a = ''ar''
          \<and> (content a = [] \<or> \<not> blank (content a))"
  then have "fst (translate_text tr (content a) ''ar'' ''en''
                  (snd (translate_text tr (title a) ''ar'' ''en'' st))) = Some (content a)"
    using translate_text_fails_or_empty [of tr "''ar''" "''en''" "content a"] by blast
  with h show "content_en (fst (process_news_article tr polarity_scores textblob now a st))
              = Some (content a)"
    by (simp add: process_ar_content_en)
qed

theorem translate_text_never_raises_witness:
  "translate_text (\<lambda>n t s d. Inl (OtherError ''service unavailable'')) ''marhaban'' ''ar'' ''en''
      \<lparr>calls = 0, sleeps = []\<rparr>
    = (Some ''marhaban'', \<lparr>calls = 3, sleeps = [2, 4]\<rparr>)
   \<and> translate_text (\<lambda>n t s d. Inl (OtherError ''service unavailable'')) ''  '' ''ar'' ''en''
      \<lparr>calls = 0, sleeps = []\<rparr>
    = (Some [], \<lparr>calls = 0, sleeps = []\<rparr>)
   \<and> content_en (fst (process_news_article
        (\<lambda>n t s d. Inl (OtherError ''service unavailable''))
        (\<lambda>t. Inl (OtherError ''no lexicon'')) (\<lambda>t. Inl (OtherError ''no corpus''))
        \<lparr>year = 2026, month = 11, day = 3, hour = 9, minute = 30, second = 0,
          microsecond = 0\<rparr>
        \<lparr>title = ''khabar'', url = ''https://www.aleqt.com/1'',
          published_date = \<lparr>year = 2026, month = 11, day = 2, hour = 0, minute = 0,
            second = 0, microsecond = 0\<rparr>,
          source = ''Aleqtisadiah'', language = ''ar'', content = ''marhaban'',
          title_en = None, content_en = None, sentiment = None, symbols = None,
          processed_at = None, error = None\<rparr>
        \<lparr>calls = 0, sleeps = []\<rparr>))
     = Some ''marhaban''"
proof -
  let ?tr = "\<lambda>(n::nat) (t::string) (s::string) (d::string).
               Inl (OtherError ''service unavailable'') :: py_exn + string"
  let ?ps = "\<lambda>t::string. Inl (OtherError ''no lexicon'') :: py_exn + vader_scores"
  let ?tb = "\<lambda>t::string. Inl (OtherError ''no corpus'') :: py_exn + real \<times> real"
  let ?now = "\<lparr>year = 2026, month = 11, day = 3, hour = 9, minute = 30, second = 0,
          microsecond = 0\<rparr>"
  let ?a = "\<lparr>title = ''khabar'', url = ''https://www.aleqt.com/1'',
          published_date = \<lparr>year = 2026, month = 11, day = 2, hour = 0, minute = 0,
            second = 0, microsecond = 0\<rparr>,
          source = ''Aleqtisadiah'', language = ''ar'', content = ''marhaban'',
          title_en = None, content_en = None, sentiment = None, symbols = None,
          processed_at = None, error = None\<rparr>"
  let ?st = "\<lparr>calls = 0, sleeps = []\<rparr>"
  have f: "\<forall>n t. isl (?tr n t ''ar'' ''en'')" by simp
  have nb: "\<not> blank ''marhaban''" by (simp add: blank_def strip_def is_space_def)
  have b: "blank ''  ''" by (simp add: blank_def strip_def is_space_def)
  have 1: "translate_text ?tr ''marhaban'' ''ar'' ''en'' ?st
             = (Some ''marhaban'', \<lparr>calls = 3, sleeps = [2, 4]\<rparr>)"
    using translate_text_never_raises [of ?tr "''marhaban''" "''ar''" "''en''" ?st ?a ?ps ?tb ?now]
      f nb by simp
  have 2: "translate_text ?tr ''  '' ''ar'' ''en'' ?st = (Some [], ?st)"
    using translate_text_never_raises [of ?tr "''  ''" "''ar''" "''en''" ?st ?a ?ps ?tb ?now] b
    by simp
  have 3: "content_en (fst (process_news_article ?tr ?ps ?tb ?now ?a ?st)) = Some ''marhaban''"
    using translate_text_never_raises [of ?tr "''x''" "''ar''" "''en''" ?st ?a ?ps ?tb ?now] f nb
    by simp
  show ?thesis by (intro conjI 1 2 3)
qed


section \<open>Properties of the source fetcher\<close>

lemma fetch_body_fails:
  assumes "case http (calls st) (src_url src) of
             Inl e \<Rightarrow> is_request_exception e
           | Inr (status, page) \<Rightarrow> 400 \<le> status \<and> status < 600"
  shows "\<exists>e. is_request_exception e
           \<and> fetch_body lib http strptime now src st = (Inl e, tick st)"
proof (cases "http (calls st) (src_url src)")
  case (Inl e)
  with assms show ?thesis by (simp add: fetch_body_def)
next
  case (Inr r)
  obtain status page where r: "r = (status, page)" by (cases r)
  with Inr assms show ?thesis
    by (simp add: fetch_body_def raise_for_status_def)
qed

lemma fetch_attempts_retry:
  "\<lbrakk>attempt < max_retries - 1; fetch_body lib http strptime now src st = (Inl e, st');
    is_request_exception e; attempt' = attempt + 1; retry_delay' = retry_delay * 2\<rbrakk>
    \<Longrightarrow> fetch_attempts lib http strptime now src attempt retry_delay st =
        fetch_attempts lib http strptime now src attempt' retry_delay' (sleep retry_delay st')"
  by (subst fetch_attempts.simps) (simp add: max_retries_def)

lemma fetch_attempts_give_up:
  "\<lbrakk>attempt < max_retries; \<not> attempt < max_retries - 1;
    fetch_body lib http strptime now src st = (Inl e, st'); is_request_exception e\<rbrakk>
    \<Longrightarrow> fetch_attempts lib http strptime now src attempt retry_delay st = (Inr (Some []), st')"
  by (subst fetch_attempts.simps) simp

text \<open>
  Claim C7. When every request for the page of a source fails, by an exception of
  the request or by an error status, \<open>fetch_news_from_source\<close> makes three requests,
  pauses 2 seconds after the first and 4 seconds after the second, and returns the
  empty list; the failure is not raised.
\<close>

theorem fetch_news_from_source_retry_bound:
  assumes "\<forall>n. case http n (src_url src) of
                 Inl e \<Rightarrow> is_request_exception e
               | Inr (status, page) \<Rightarrow> 400 \<le> status \<and> status < 600"
  shows "fetch_news_from_source lib http strptime now src st =
           (Inr (Some []), \<lparr>calls = calls st + 3, sleeps = sleeps st @ [2, 4]\<rparr>)"
proof -
  let ?s1 = "sleep 2 (tick st)"
  let ?s2 = "sleep 4 (tick ?s1)"
  have f: "\<And>s. \<exists>e. is_request_exception e
           \<and> fetch_body lib http strptime now src s = (Inl e, tick s)"
    using assms by (intro fetch_body_fails) simp
  from f [of st] obtain e0 where
    b0: "fetch_body lib http strptime now src st = (Inl e0, tick st)"
    and r0: "is_request_exception e0" by blast
  from f [of ?s1] obtain e1 where
    b1: "fetch_body lib http strptime now src ?s1 = (Inl e1, tick ?s1)"
    and r1: "is_request_exception e1" by blast
  from f [of ?s2] obtain e2 where
    b2: "fetch_body lib http strptime now src ?s2 = (Inl e2, tick ?s2)"
    and r2: "is_request_exception e2" by blast
  have a2: "fetch_attempts lib http strptime now src 2 8 ?s2 = (Inr (Some []), tick ?s2)"
    by (rule fetch_attempts_give_up [OF _ _ b2 r2]) (simp_all add: max_retries_def)
  have "fetch_attempts lib http strptime now src 1 4 ?s1 =
          fetch_attempts lib http strptime now src 2 8 ?s2"
    by (rule fetch_attempts_retry [OF _ b1 r1]) (simp_all add: max_retries_def)
  with a2 have a1: "fetch_attempts lib http strptime now src 1 4 ?s1 = (Inr (Some []), tick ?s2)"
    by (simp only:)
  have "fetch_attempts lib http strptime now src 0 2 st =
          fetch_attempts lib http strptime now src 1 4 ?s1"
    by (rule fetch_attempts_retry [OF _ b0 r0]) (simp_all add: max_retries_def)
  with a1 have a0: "fetch_attempts lib http strptime now src 0 2 st = (Inr (Some []), tick ?s2)"
    by (simp only:)
  have "tick ?s2 = \<lparr>calls = calls st + 3, sleeps = sleeps st @ [2, 4]\<rparr>"
    by (simp add: tick_def sleep_def)
  with a0 show ?thesis by (simp add: fetch_news_from_source_def)
qed

theorem fetch_news_from_source_retry_bound_witness:
  "fetch_news_from_source
      \<lparr>soup_select = (\<lambda>page sel. []), select_one = (\<lambda>(n::nat) sel. None),
        elem_text = (\<lambda>n. []), elem_href = (\<lambda>n. None), doc_select_one = (\<lambda>page sel. None),
        doc_body = (\<lambda>page. None), get_text = (\<lambda>n. [])\<rparr>
      (\<lambda>n u. if n = 1 then Inr (503, ''Service Unavailable'')
              else Inl (RequestException ''Connection timed out''))
      (\<lambda>s f. None)
      \<lparr>year = 2026, month = 11, day = 3, hour = 9, minute = 30, second = 0, microsecond = 0\<rparr>
      \<lparr>src_name = ''Argaam'', src_url = ''https://www.argaam.com/en/company/companies-prices'',
        src_language = ''en'', src_type = ''financial''\<rparr>
      \<lparr>calls = 0, sleeps = []\<rparr>
    = (Inr (Some []), \<lparr>calls = 3, sleeps = [2, 4]\<rparr>)"
proof -
  let ?http = "\<lambda>(n::nat) (u::string). if n = 1 then Inr (503::nat, ''Service Unavailable'')
              else Inl (RequestException ''Connection timed out'')"
  let ?src = "\<lparr>src_name = ''Argaam'',
        src_url = ''https://www.argaam.com/en/company/companies-prices'',
        src_language = ''en'', src_type = ''financial''\<rparr>"
  have h: "\<forall>n. case ?http n (src_url ?src) of
                 Inl e \<Rightarrow> is_request_exception e
               | Inr (status, page) \<Rightarrow> 400 \<le> status \<and> status < 600"
    by simp
  let ?lib = "\<lparr>soup_select = (\<lambda>page sel. []), select_one = (\<lambda>(n::nat) sel. None),
        elem_text = (\<lambda>n. []), elem_href = (\<lambda>n. None), doc_select_one = (\<lambda>page sel. None),
        doc_body = (\<lambda>page. None), get_text = (\<lambda>n. [])\<rparr>"
  let ?now = "\<lparr>year = 2026, month = 11, day = 3, hour = 9, minute = 30, second = 0,
        microsecond = 0\<rparr>"
  have "fetch_news_from_source ?lib ?http (\<lambda>s f. None) ?now ?src \<lparr>calls = 0, sleeps = []\<rparr>
      = (Inr (Some []), \<lparr>calls = calls \<lparr>calls = 0, sleeps = []\<rparr> + 3,
           sleeps = sleeps \<lparr>calls = 0, sleeps = []\<rparr> @ [2, 4]\<rparr>)"
    by (rule fetch_news_from_source_retry_bound [OF h])
  then show ?thesis by simp
qed


section \<open>Properties of the article store\<close>


















text \<open>
  Claim C2 fails on the code. The \<open>try\<close> block encloses the whole loop, so the first
  insertion that raises ends the batch: here the second of three articles is
  rejected, the third is never tried, and the call returns 0 although the first
  article has been stored.
\<close>

theorem store_news_in_db_failure_aborts_batch:
  "store_news_in_db
      (\<lambda>a. if url a = ''https://www.argaam.com/1''
            then InsertRaises (PyMongoError ''connection closed'') else Inserted True)
      [(raw_article ''New'' ''https://www.argaam.com/2''
        \<lparr>year = 2026, month = 11, day = 2, hour = 0, minute = 0, second = 0, microsecond = 0\<rparr>
        ''Argaam'' ''en'' ''text''),
       (raw_article ''Dup'' ''https://www.argaam.com/1''
        \<lparr>year = 2026, month = 11, day = 2, hour = 0, minute = 0, second = 0, microsecond = 0\<rparr>
        ''Argaam'' ''en'' ''text''),
       (raw_article ''Last'' ''https://www.argaam.com/3''
        \<lparr>year = 2026, month = 11, day = 2, hour = 0, minute = 0, second = 0, microsecond = 0\<rparr>
        ''Argaam'' ''en'' ''text'')]
      []
    = (0,
       [(raw_article ''New'' ''https://www.argaam.com/2''
        \<lparr>year = 2026, month = 11, day = 2, hour = 0, minute = 0, second = 0, microsecond = 0\<rparr>
        ''Argaam'' ''en'' ''text'')],
       [Info ''Stored article: New'',
        Error ''MongoDB error storing news: connection closed''])"
  by (simp add: store_news_in_db_def find_one_url_def raw_article_def)


section \<open>Properties of the sentiment summary\<close>



lemma mset_sort_newest_first [simp]: "mset (sort_newest_first xs) = mset xs"
  by (simp add: sort_newest_first_def)

lemma set_sort_newest_first [simp]: "set (sort_newest_first xs) = set xs"
  by (simp add: sort_newest_first_def)

lemma length_sort_newest_first [simp]: "length (sort_newest_first xs) = length xs"
  by (simp add: sort_newest_first_def)


















end
